theory Spec2Isabelle
  imports Complex_Main
begin

section \<open>Values and effects of the notebook\<close>

text \<open>
  The notebook is a sequence of cells that call PIL, numpy, rembg, torch and the TripoSR
  model. Those libraries are outside the repository: each call is recorded as an event of
  a trace, and what the library returns is taken from a record of parameters. Python and
  numpy floats are modelled as reals, every arithmetic operation being the exact operation
  followed by a rounding function that is a parameter as well (\<open>rnd64\<close> for Python floats,
  \<open>rnd32\<close> for \<open>np.float32\<close>).
\<close>

datatype py_error = IndexError

text \<open>
  A PIL image: its mode, its size (width, height) and its pixels in row-major order, each
  pixel being the list of its band values (0..255).
\<close>

record image =
  mode :: string
  size_wh :: "nat \<times> nat"
  pixels :: "nat list list"

datatype ('s, 'm) event =
    Print string
  | CudaSynchronize
  | NewSession
  | RemoveBackground image
  | ResizeForeground image real
  | MakeDirs string
  | SaveImage image string
  | FromPretrained string string string
  | SetChunkSize nat
  | ModelTo string
  | RunModel "image list" string
  | Render 's nat string
  | SaveVideo "image list" string nat
  | ExtractMesh 's bool
  | ExportMesh 'm string

text \<open>
  The runtime the cells run in: whether \<open>torch.cuda.is_available()\<close> holds, the value that
  the k-th call of \<open>time.time()\<close> returns, and the two rounding functions.
\<close>

record runtime =
  cuda_is_available :: bool
  time_time :: "nat \<Rightarrow> real"
  rnd64 :: "real \<Rightarrow> real"
  rnd32 :: "real \<Rightarrow> real"

subsection \<open>Formatting\<close>

definition digit_char :: "nat \<Rightarrow> char" where
  "digit_char d = ''0123456789'' ! (d mod 10)"

text \<open>\<open>str(n)\<close> for a natural number.\<close>

fun str_nat :: "nat \<Rightarrow> string" where
  "str_nat n = (if n < 10 then [digit_char n] else str_nat (n div 10) @ [digit_char (n mod 10)])"

declare str_nat.simps [simp del]

text \<open>The format specification \<open>03d\<close>: at least three digits, padded with zeros.\<close>

definition fmt_03d :: "nat \<Rightarrow> string" where
  "fmt_03d n = replicate (3 - length (str_nat n)) (CHR ''0'') @ str_nat n"

definition round_half_even :: "real \<Rightarrow> int" where
  "round_half_even x =
     (let f = \<lfloor>x\<rfloor>; d = x - of_int f
      in if d < 1 / 2 then f else if 1 / 2 < d then f + 1 else if even f then f else f + 1)"

text \<open>
  The format specification \<open>.2f\<close> on a finite float: the exact value rounded to two
  decimals, ties to even, with the sign of the value.
\<close>

definition fmt_2f :: "real \<Rightarrow> string" where
  "fmt_2f x =
     (let n = nat (round_half_even (\<bar>x\<bar> * 100))
      in (if x < 0 then ''-'' else '''') @ str_nat (n div 100) @ ''.''
           @ [digit_char (n div 10), digit_char n])"

section \<open>Timer\<close>

record Timer =
  items :: "string \<rightharpoonup> real"
  time_scale :: real
  time_unit :: string

definition Timer_init :: Timer where
  "Timer_init = \<lparr>items = Map.empty, time_scale = 1000, time_unit = ''ms''\<rparr>"

text \<open>
  The state a cell works on: the global \<open>timer\<close>, the number of calls of \<open>time.time()\<close>
  so far, and the trace of the calls made so far.
\<close>

record ('s, 'm) world =
  timer :: Timer
  tick :: nat
  trace :: "('s, 'm) event list"

definition world_init :: "('s, 'm) world" where
  "world_init = \<lparr>timer = Timer_init, tick = 0, trace = []\<rparr>"

definition emit :: "('s, 'm) event \<Rightarrow> ('s, 'm) world \<Rightarrow> ('s, 'm) world" where
  "emit e w = w\<lparr>trace := trace w @ [e]\<rparr>"

definition read_clock :: "runtime \<Rightarrow> ('s, 'm) world \<Rightarrow> real \<times> ('s, 'm) world" where
  "read_clock rt w = (time_time rt (tick w), w\<lparr>tick := Suc (tick w)\<rparr>)"

text \<open>
  \<^verbatim>\<open>
  def start(self, name: str) -> None:
    if torch.cuda.is_available():
      torch.cuda.synchronize()
    self.items[name] = time.time()
  \<close>
\<close>

definition Timer_start :: "runtime \<Rightarrow> string \<Rightarrow> ('s, 'm) world \<Rightarrow> ('s, 'm) world" where
  "Timer_start rt name w =
     (let w1 = (if cuda_is_available rt then emit CudaSynchronize w else w);
          (now, w2) = read_clock rt w1
      in w2\<lparr>timer := (timer w2)\<lparr>items := (items (timer w2))(name \<mapsto> now)\<rparr>\<rparr>)"

text \<open>
  \<^verbatim>\<open>
  def end(self, name: str) -> float:
    if name not in self.items:
      return
    if torch.cuda.is_available():
      torch.cuda.synchronize
    start_time = self.items.pop(name)
    delta = time.time() - start_time
    t = delta * self.time_scale
    print(f"{name} finished in {t:.2f}{self.time_unit}.")
  \<close>
  The second \<open>if\<close> only names the attribute \<open>torch.cuda.synchronize\<close>: without the
  parentheses nothing is called, so both of its branches leave the world as it is. Both
  exits return Python's \<open>None\<close>, the first by a bare \<open>return\<close> and the second by reaching
  the end of the body.
\<close>

definition Timer_end ::
  "runtime \<Rightarrow> string \<Rightarrow> ('s, 'm) world \<Rightarrow> real option \<times> ('s, 'm) world" where
  "Timer_end rt name w =
     (case items (timer w) name of
        None \<Rightarrow> (None, w)
      | Some start_time \<Rightarrow>
          (let w0 = (if cuda_is_available rt then w else w);
               w1 = w0\<lparr>timer := (timer w0)\<lparr>items := (items (timer w0))(name := None)\<rparr>\<rparr>;
               (now, w2) = read_clock rt w1;
               delta = rnd64 rt (now - start_time);
               t = rnd64 rt (delta * time_scale (timer w2));
               w3 = emit (Print (name @ '' finished in '' @ fmt_2f t @ time_unit (timer w2) @ ''.'')) w2
           in (None, w3)))"

section \<open>Paths\<close>

text \<open>
  \<open>os.path.join(path, *bs)\<close> on POSIX: a component that starts with a slash replaces what
  came before; otherwise it is appended, after a slash unless the path so far is empty or
  ends with one.
\<close>

fun os_path_join :: "string \<Rightarrow> string list \<Rightarrow> string" where
  "os_path_join path [] = path"
| "os_path_join path (b # bs) =
     os_path_join
       (if take 1 b = ''/'' then b
        else if path = [] \<or> last path = CHR ''/'' then path @ b
        else path @ ''/'' @ b) bs"

declare os_path_join.simps [simp del]

section \<open>Configuration\<close>

record config =
  image_paths :: string
  device :: string
  pretrained_model_name_or_path :: string
  chunk_size :: nat
  no_remove_bg :: bool
  foreground_ratio :: real
  output_dir :: string
  model_save_format :: string
  render :: bool

text \<open>
  The values that the configuration cell assigns. The cell strips \<open>output_dir\<close> of
  surrounding white space, which leaves \<open>output/\<close> as it is, and then creates the
  directory: \<open>os.makedirs(output_dir, exist_ok=True)\<close>.
\<close>

definition notebook_config :: config where
  "notebook_config =
     \<lparr>image_paths = ''/content/TripoSR/examples/product.png'',
      device = ''cuda:0'',
      pretrained_model_name_or_path = ''stabilityai/TripoSR'',
      chunk_size = 8192,
      no_remove_bg = True,
      foreground_ratio = 85 / 100,
      output_dir = ''output/'',
      model_save_format = ''obj'',
      render = True\<rparr>"

definition config_cell :: "config \<Rightarrow> ('s, 'm) world \<Rightarrow> ('s, 'm) world" where
  "config_cell cfg w = emit (MakeDirs (output_dir cfg)) w"

text \<open>
  The cell that loads the model:
  \<^verbatim>\<open>
  timer.start("Initializing model")
  model = TSR.from_pretrained(
      pretrained_model_name_or_path,
      config_name="config.yaml",
      weight_name="model.ckpt",
  )
  model.renderer.set_chunk_size(chunk_size)
  model.to(device)
  timer.end("Initializing model")
  \<close>
\<close>

definition load_model_cell :: "runtime \<Rightarrow> config \<Rightarrow> ('s, 'm) world \<Rightarrow> ('s, 'm) world" where
  "load_model_cell rt cfg w =
     (let w1 = Timer_start rt ''Initializing model'' w;
          w2 = emit (FromPretrained (pretrained_model_name_or_path cfg) ''config.yaml'' ''model.ckpt'') w1;
          w3 = emit (SetChunkSize (chunk_size cfg)) w2;
          w4 = emit (ModelTo (device cfg)) w3
      in snd (Timer_end rt ''Initializing model'' w4))"

section \<open>The libraries\<close>

text \<open>
  What the external calls return: \<open>tsr.utils.remove_background\<close> and \<open>resize_foreground\<close>,
  the pixels that \<open>Image.resize\<close> resamples, and the model's call, \<open>render\<close> and
  \<open>extract_mesh\<close>. A scene encoding is a value of type \<open>'s\<close>, a mesh one of type \<open>'m\<close>.
\<close>

record ('s, 'm) libs =
  remove_background :: "image \<Rightarrow> image"
  resize_foreground :: "image \<Rightarrow> real \<Rightarrow> image"
  resample :: "image \<Rightarrow> nat \<times> nat \<Rightarrow> nat list list"
  model_call :: "image list \<Rightarrow> string \<Rightarrow> 's"
  model_render :: "'s \<Rightarrow> nat \<Rightarrow> string \<Rightarrow> image list list"
  model_extract_mesh :: "'s \<Rightarrow> bool \<Rightarrow> 'm list"

text \<open>The number of bands of a PIL mode.\<close>

definition bands :: "string \<Rightarrow> nat" where
  "bands m =
     (if m = ''RGBA'' \<or> m = ''CMYK'' \<or> m = ''RGBa'' \<or> m = ''RGBX'' then 4
      else if m = ''RGB'' \<or> m = ''YCbCr'' \<or> m = ''LAB'' \<or> m = ''HSV'' then 3
      else if m = ''LA'' \<or> m = ''PA'' \<or> m = ''La'' then 2
      else 1)"

definition wf_image :: "image \<Rightarrow> bool" where
  "wf_image img \<longleftrightarrow>
     length (pixels img) = fst (size_wh img) * snd (size_wh img) \<and>
     list_all (\<lambda>p. length p = bands (mode img) \<and> list_all (\<lambda>v. v < 256) p) (pixels img)"

section \<open>The upload cell\<close>

text \<open>
  \<^verbatim>\<open>
  uploaded = files.upload()
  original_image = Image.open(list(uploaded.keys())[0])
  original_image.resize((512, 512)).save("examples/product.png")
  \<close>
  \<open>Image.resize\<close> returns a new image and leaves \<open>original_image\<close> as it was; the new image
  is saved and bound to no name.
\<close>

definition Image_resize :: "('s, 'm) libs \<Rightarrow> image \<Rightarrow> nat \<times> nat \<Rightarrow> image" where
  "Image_resize lb img sz = \<lparr>mode = mode img, size_wh = sz, pixels = resample lb img sz\<rparr>"

definition upload_cell ::
  "('s, 'm) libs \<Rightarrow> (string \<times> image) list \<Rightarrow> ('s, 'm) world \<Rightarrow> (py_error + image) \<times> ('s, 'm) world" where
  "upload_cell lb uploaded w =
     (case uploaded of
        [] \<Rightarrow> (Inl IndexError, w)
      | (fname, img) # _ \<Rightarrow>
          (let original_image = img;
               w1 = emit (SaveImage (Image_resize lb original_image (512, 512)) ''examples/product.png'') w
           in (Inr original_image, w1)))"

section \<open>The preprocessing cell\<close>

text \<open>\<open>astype(np.uint8)\<close> on a float: truncation towards zero, modulo 256.\<close>

definition astype_uint8 :: "real \<Rightarrow> nat" where
  "astype_uint8 x = nat ((if x < 0 then \<lceil>x\<rceil> else \<lfloor>x\<rfloor>) mod 256)"

text \<open>
  \<^verbatim>\<open>
  image = np.array(image).astype(np.float32) / 255.0
  image = image[:, :, :3] * image[:, :, 3:4] + (1 - image[:, :, 3:4]) * 0.5
  image = Image.fromarray((image * 255.0).astype(np.uint8))
  \<close>
  on one pixel: \<open>q\<close> is the pixel normalised, \<open>take 3 q\<close> the slice \<open>:3\<close> and
  \<open>take 1 (drop 3 q)\<close> the slice \<open>3:4\<close>, broadcast along the last axis. The array of an
  RGBA image has four bands, so the slice \<open>3:4\<close> is never empty there.
\<close>

definition composite_pixel :: "runtime \<Rightarrow> nat list \<Rightarrow> nat list" where
  "composite_pixel rt p =
     (let q = map (\<lambda>v. rnd32 rt (real v / 255)) p
      in case take 1 (drop 3 q) of
           [] \<Rightarrow> []
         | alpha # _ \<Rightarrow>
             map (\<lambda>c. astype_uint8 (rnd32 rt
                    (rnd32 rt (rnd32 rt (c * alpha) + rnd32 rt (rnd32 rt (1 - alpha) * (1 / 2))) * 255)))
                 (take 3 q))"

text \<open>\<open>Image.fromarray\<close> of a uint8 array of shape (h, w, 3) is an RGB image of size (w, h).\<close>

definition alpha_composite :: "runtime \<Rightarrow> image \<Rightarrow> image" where
  "alpha_composite rt img =
     \<lparr>mode = ''RGB'', size_wh = size_wh img, pixels = map (composite_pixel rt) (pixels img)\<rparr>"

text \<open>
  \<^verbatim>\<open>
  timer.start("Processing images")
  images = []
  rembg_session = rembg.new_session()
  # Remove background using Rembg (unless disabled)
  image_with_bg_removed = remove_background(original_image, rembg_session)
  # Resize + crop based on foreground
  image = resize_foreground(image_with_bg_removed, foreground_ratio)
  # Handle RGBA transparency blending
  if image.mode == "RGBA":
      ...
  # Save processed image
  image_dir = os.path.join(output_dir, str(0))
  os.makedirs(image_dir, exist_ok=True)
  image.save(os.path.join(image_dir, "input.png"))
  # Append to list for inference
  images.append(image)
  timer.end("Processing images")
  \<close>
  The cell never reads \<open>no_remove_bg\<close>.
\<close>

definition preprocess_cell ::
  "runtime \<Rightarrow> ('s, 'm) libs \<Rightarrow> config \<Rightarrow> image \<Rightarrow> ('s, 'm) world \<Rightarrow> image list \<times> ('s, 'm) world" where
  "preprocess_cell rt lb cfg original_image w =
     (let w1 = Timer_start rt ''Processing images'' w;
          images = [];
          w2 = emit NewSession w1;
          image_with_bg_removed = remove_background lb original_image;
          w3 = emit (RemoveBackground original_image) w2;
          image0 = resize_foreground lb image_with_bg_removed (foreground_ratio cfg);
          w4 = emit (ResizeForeground image_with_bg_removed (foreground_ratio cfg)) w3;
          image = (if mode image0 = ''RGBA'' then alpha_composite rt image0 else image0);
          image_dir = os_path_join (output_dir cfg) [str_nat 0];
          w5 = emit (MakeDirs image_dir) w4;
          w6 = emit (SaveImage image (os_path_join image_dir [''input.png''])) w5;
          images = images @ [image];
          w7 = snd (Timer_end rt ''Processing images'' w6)
      in (images, w7))"

section \<open>The inference, render and export cell\<close>

text \<open>
  \<^verbatim>\<open>
  timer.start("Rendering")
  render_images = model.render(scene_codes, n_views=30, return_type="pil")
  for ri, render_image in enumerate(render_images[0]):
      render_image.save(os.path.join(output_dir, str(i), f"render_{ri:03d}.png"))
  save_video(
      render_images[0], os.path.join(output_dir, str(i), "render.mp4"), fps=30
  )
  timer.end("Rendering")
  \<close>
\<close>

definition render_branch ::
  "runtime \<Rightarrow> ('s, 'm) libs \<Rightarrow> config \<Rightarrow> nat \<Rightarrow> 's \<Rightarrow> ('s, 'm) world \<Rightarrow> py_error option \<times> ('s, 'm) world" where
  "render_branch rt lb cfg i scene_codes w =
     (let w1 = Timer_start rt ''Rendering'' w;
          render_images = model_render lb scene_codes 30 ''pil'';
          w2 = emit (Render scene_codes 30 ''pil'') w1
      in case render_images of
           [] \<Rightarrow> (Some IndexError, w2)
         | frames # _ \<Rightarrow>
             (let w3 = fold (\<lambda>(ri, render_image).
                          emit (SaveImage render_image
                            (os_path_join (output_dir cfg) [str_nat i, ''render_'' @ fmt_03d ri @ ''.png''])))
                        (enumerate 0 frames) w2;
                  w4 = emit (SaveVideo frames (os_path_join (output_dir cfg) [str_nat i, ''render.mp4'']) 30) w3
              in (None, snd (Timer_end rt ''Rendering'' w4))))"

text \<open>
  \<^verbatim>\<open>
  timer.start("Exporting mesh")
  meshes = model.extract_mesh(scene_codes, has_vertex_color=False)
  mesh_file = os.path.join(output_dir, str(i), f"mesh.{model_save_format}")
  meshes[0].export(mesh_file)
  timer.end("Exporting mesh")
  \<close>
\<close>

definition export_mesh ::
  "runtime \<Rightarrow> ('s, 'm) libs \<Rightarrow> config \<Rightarrow> nat \<Rightarrow> 's \<Rightarrow> ('s, 'm) world \<Rightarrow> py_error option \<times> ('s, 'm) world" where
  "export_mesh rt lb cfg i scene_codes w =
     (let w1 = Timer_start rt ''Exporting mesh'' w;
          meshes = model_extract_mesh lb scene_codes False;
          w2 = emit (ExtractMesh scene_codes False) w1;
          mesh_file = os_path_join (output_dir cfg) [str_nat i, ''mesh.'' @ model_save_format cfg]
      in case meshes of
           [] \<Rightarrow> (Some IndexError, w2)
         | mesh # _ \<Rightarrow>
             (let w3 = emit (ExportMesh mesh mesh_file) w2
              in (None, snd (Timer_end rt ''Exporting mesh'' w3))))"

text \<open>
  The body of the loop \<open>for i, image in enumerate(images)\<close>, \<open>n\<close> being \<open>len(images)\<close>:
  \<^verbatim>\<open>
  print(f"Running image {i + 1}/{len(images)} ...")
  timer.start("Running model")
  with torch.no_grad():
      scene_codes = model([image], device=device)
  timer.end("Running model")
  if render:
      ...
  # Export mesh
  ...
  \<close>
\<close>

definition run_image ::
  "runtime \<Rightarrow> ('s, 'm) libs \<Rightarrow> config \<Rightarrow> nat \<Rightarrow> nat \<times> image \<Rightarrow> ('s, 'm) world \<Rightarrow> py_error option \<times> ('s, 'm) world" where
  "run_image rt lb cfg n x w =
     (let i = fst x; image = snd x;
          w1 = emit (Print (''Running image '' @ str_nat (i + 1) @ ''/'' @ str_nat n @ '' ...'')) w;
          w2 = Timer_start rt ''Running model'' w1;
          scene_codes = model_call lb [image] (device cfg);
          w3 = emit (RunModel [image] (device cfg)) w2;
          w4 = snd (Timer_end rt ''Running model'' w3);
          r = (if render cfg then render_branch rt lb cfg i scene_codes w4 else (None, w4))
      in case fst r of
           Some e \<Rightarrow> (Some e, snd r)
         | None \<Rightarrow> export_mesh rt lb cfg i scene_codes (snd r))"

fun run_loop ::
  "runtime \<Rightarrow> ('s, 'm) libs \<Rightarrow> config \<Rightarrow> nat \<Rightarrow> (nat \<times> image) list \<Rightarrow> ('s, 'm) world \<Rightarrow> py_error option \<times> ('s, 'm) world" where
  "run_loop rt lb cfg n [] w = (None, w)"
| "run_loop rt lb cfg n (x # xs) w =
     (case run_image rt lb cfg n x w of
        (Some e, w') \<Rightarrow> (Some e, w')
      | (None, w') \<Rightarrow> run_loop rt lb cfg n xs w')"

definition inference_cell ::
  "runtime \<Rightarrow> ('s, 'm) libs \<Rightarrow> config \<Rightarrow> image list \<Rightarrow> ('s, 'm) world \<Rightarrow> py_error option \<times> ('s, 'm) world" where
  "inference_cell rt lb cfg images w =
     (case run_loop rt lb cfg (length images) (enumerate 0 images) w of
        (Some e, w') \<Rightarrow> (Some e, w')
      | (None, w') \<Rightarrow> (None, emit (Print ''Processing complete.'') w'))"

text \<open>A pipeline run: the preprocessing cell, then the loop over the images it collected.\<close>

definition pipeline_run ::
  "runtime \<Rightarrow> ('s, 'm) libs \<Rightarrow> config \<Rightarrow> image \<Rightarrow> ('s, 'm) world \<Rightarrow> py_error option \<times> ('s, 'm) world" where
  "pipeline_run rt lb cfg original_image w =
     (let (images, w1) = preprocess_cell rt lb cfg original_image w
      in inference_cell rt lb cfg images w1)"

text \<open>
  The cells in the notebook's order, from the upload on: upload, configuration, loading
  the model, preprocessing, and the loop.
\<close>

definition notebook_run ::
  "runtime \<Rightarrow> ('s, 'm) libs \<Rightarrow> config \<Rightarrow> (string \<times> image) list \<Rightarrow> ('s, 'm) world \<Rightarrow> py_error option \<times> ('s, 'm) world" where
  "notebook_run rt lb cfg uploaded w =
     (case upload_cell lb uploaded w of
        (Inl e, w1) \<Rightarrow> (Some e, w1)
      | (Inr original_image, w1) \<Rightarrow>
          pipeline_run rt lb cfg original_image (load_model_cell rt cfg (config_cell cfg w1)))"

section \<open>Observing a run\<close>

text \<open>
  The calls to the libraries and the files written, without the timer's output: what is
  left of a trace once the printed lines and the device barriers are dropped.
\<close>

fun is_call :: "('s, 'm) event \<Rightarrow> bool" where
  "is_call (Print _) = False"
| "is_call CudaSynchronize = False"
| "is_call _ = True"

definition calls :: "('s, 'm) world \<Rightarrow> ('s, 'm) event list" where
  "calls w = filter is_call (trace w)"

text \<open>The path of the file that an event writes.\<close>

fun written_path :: "('s, 'm) event \<Rightarrow> string option" where
  "written_path (SaveImage _ p) = Some p"
| "written_path (SaveVideo _ p _) = Some p"
| "written_path (ExportMesh _ p) = Some p"
| "written_path _ = None"

section \<open>A concrete run\<close>

text \<open>
  A runtime with a GPU, a clock that advances by one second at every reading and exact
  arithmetic; libraries that make the pure blue pixels transparent, leave the foreground
  as it is, render as many one-pixel frames as requested and extract one mesh; an RGB
  upload of two pixels, one red and one blue, and what background removal makes of it.
\<close>

definition rt_demo :: runtime where
  "rt_demo = \<lparr>cuda_is_available = True, time_time = (\<lambda>k. real k), rnd64 = (\<lambda>x. x), rnd32 = (\<lambda>x. x)\<rparr>"

definition frame_demo :: "nat \<Rightarrow> image" where
  "frame_demo k = \<lparr>mode = ''RGB'', size_wh = (1, 1), pixels = [[k, k, k]]\<rparr>"

definition lb_demo :: "(nat, string) libs" where
  "lb_demo =
     \<lparr>remove_background = (\<lambda>im. \<lparr>mode = ''RGBA'', size_wh = size_wh im,
         pixels = map (\<lambda>p. if take 3 p = [0, 0, 255] then [0, 0, 255, 0] else take 3 p @ [255]) (pixels im)\<rparr>),
      resize_foreground = (\<lambda>im r. im),
      resample = (\<lambda>im sz. replicate (fst sz * snd sz) (replicate (bands (mode im)) 0)),
      model_call = (\<lambda>ims dev. length ims),
      model_render = (\<lambda>sc n t. [map frame_demo [0..<n]]),
      model_extract_mesh = (\<lambda>sc c. [''mesh'' @ str_nat sc])\<rparr>"

definition img_demo :: image where
  "img_demo = \<lparr>mode = ''RGB'', size_wh = (2, 1), pixels = [[255, 0, 0], [0, 0, 255]]\<rparr>"

definition cutout_demo :: image where
  "cutout_demo = \<lparr>mode = ''RGBA'', size_wh = (2, 1), pixels = [[255, 0, 0, 255], [0, 0, 255, 0]]\<rparr>"

definition w_demo :: "(nat, string) world" where
  "w_demo = world_init"

section \<open>Timer: what \<open>end\<close> does\<close>

lemma trace_Timer_start:
  "trace (Timer_start rt name w) = trace w @ (if cuda_is_available rt then [CudaSynchronize] else [])"
  by (simp add: Timer_start_def read_clock_def emit_def)

lemma items_Timer_start:
  "items (timer (Timer_start rt name w)) = (items (timer w))(name \<mapsto> time_time rt (tick w))"
  by (simp add: Timer_start_def read_clock_def emit_def)

text \<open>Neither operation touches the scale or the unit that \<open>__init__\<close> set.\<close>

lemma Timer_start_keeps_scale:
  "time_scale (timer (Timer_start rt name w)) = time_scale (timer w) \<and>
   time_unit (timer (Timer_start rt name w)) = time_unit (timer w)"
  by (simp add: Timer_start_def read_clock_def emit_def)

lemma Timer_end_keeps_scale:
  "time_scale (timer (snd (Timer_end rt name w))) = time_scale (timer w) \<and>
   time_unit (timer (snd (Timer_end rt name w))) = time_unit (timer w)"
  by (simp add: Timer_end_def read_clock_def emit_def split: option.split)

lemma fmt_2f_1000: "fmt_2f 1000 = ''1000.00''"
  by (simp add: fmt_2f_def round_half_even_def str_nat.simps digit_char_def)

lemma fmt_2f_2000: "fmt_2f 2000 = ''2000.00''"
  by (simp add: fmt_2f_def round_half_even_def str_nat.simps digit_char_def)

text \<open>
  C4. Ending a name that has no active interval is a no-op: the call returns normally
  (with \<open>None\<close>), prints nothing, and the timer and the rest of the state are as before.
\<close>

theorem Timer_end_inactive_noop:
  "items (timer w) name = None \<Longrightarrow> Timer_end rt name w = (None, w)"
  by (simp add: Timer_end_def)

theorem Timer_end_inactive_noop_witness:
  "items (timer w_demo) ''X'' = None \<and> Timer_end rt_demo ''X'' w_demo = (None, w_demo)"
proof -
  have h: "items (timer w_demo) ''X'' = None"
    by (simp add: w_demo_def world_init_def Timer_init_def)
  from h Timer_end_inactive_noop [OF h, of rt_demo] show ?thesis by simp
qed

text \<open>
  C8. Ending a name that has an active interval, on a timer with the scale 1000 and the
  unit ms that \<open>__init__\<close> sets: the name is removed from \<open>items\<close> and every other entry
  keeps its start time, one line \<open>{name} finished in {t:.2f}ms.\<close> is printed, where \<open>t\<close> is
  the time read now minus the start time, times 1000; ending the same name again at once
  is a no-op.
\<close>

theorem Timer_end_active:
  assumes "items (timer w) name = Some s"
    and "time_scale (timer w) = 1000" and "time_unit (timer w) = ''ms''"
  shows "\<exists>w'. Timer_end rt name w = (None, w') \<and>
           items (timer w') = (items (timer w))(name := None) \<and>
           trace w' = trace w @ [Print (name @ '' finished in ''
               @ fmt_2f (rnd64 rt (rnd64 rt (time_time rt (tick w) - s) * 1000)) @ ''ms.'')] \<and>
           Timer_end rt name w' = (None, w')"
  using assms by (simp add: Timer_end_def read_clock_def emit_def)

theorem Timer_end_active_witness:
  "\<exists>w'. Timer_end rt_demo ''X'' (Timer_start rt_demo ''Y'' (Timer_start rt_demo ''X'' w_demo)) = (None, w') \<and>
      items (timer w') ''X'' = None \<and> items (timer w') ''Y'' = Some 1 \<and>
      trace w' = [CudaSynchronize, CudaSynchronize, Print ''X finished in 2000.00ms.'']"
proof -
  let ?w = "Timer_start rt_demo ''Y'' (Timer_start rt_demo ''X'' w_demo)"
  have a: "items (timer ?w) ''X'' = Some 0"
    by (simp add: items_Timer_start w_demo_def world_init_def Timer_init_def rt_demo_def
        Timer_start_def read_clock_def emit_def)
  have b: "time_scale (timer ?w) = 1000"
    by (simp add: Timer_start_keeps_scale w_demo_def world_init_def Timer_init_def)
  have c: "time_unit (timer ?w) = ''ms''"
    by (simp add: Timer_start_keeps_scale w_demo_def world_init_def Timer_init_def)
  have d: "trace ?w = [CudaSynchronize, CudaSynchronize]" "tick ?w = 2"
    "items (timer ?w) ''Y'' = Some 1"
    by (simp_all add: w_demo_def Timer_start_def world_init_def Timer_init_def rt_demo_def emit_def read_clock_def)
  have f: "rnd64 rt_demo = (\<lambda>x. x)" "time_time rt_demo 2 = 2"
    by (simp_all add: rt_demo_def)
  from Timer_end_active [OF a b c, of rt_demo] show ?thesis
    by (auto simp add: d f fmt_2f_2000)
qed

text \<open>
  C10. \<open>end\<close> returns \<open>None\<close> on every call, whether or not the name is active: the
  duration only appears in the printed line.
\<close>

theorem Timer_end_returns_None: "fst (Timer_end rt name w) = None"
  by (simp add: Timer_end_def read_clock_def split: option.split)

text \<open>
  C2. With a GPU available, \<open>start\<close> runs the device barrier and \<open>end\<close> on the then active
  name runs none: the trace after both holds the one barrier of \<open>start\<close>, followed by the
  printed line.
\<close>

theorem Timer_end_no_synchronize:
  "cuda_is_available rt_demo \<and>
   trace (Timer_start rt_demo ''X'' w_demo) = [CudaSynchronize] \<and>
   trace (snd (Timer_end rt_demo ''X'' (Timer_start rt_demo ''X'' w_demo)))
     = [CudaSynchronize, Print ''X finished in 1000.00ms.'']"
  by (simp add: Timer_end_def Timer_start_def w_demo_def world_init_def Timer_init_def rt_demo_def
      emit_def read_clock_def fmt_2f_1000)

section \<open>The calls of the cells\<close>

text \<open>The timer adds no call: it only synchronises and prints.\<close>

lemma calls_emit: "calls (emit e w) = calls w @ (if is_call e then [e] else [])"
  by (simp add: calls_def emit_def)

lemma calls_Timer_start: "calls (Timer_start rt name w) = calls w"
  by (simp add: calls_def Timer_start_def read_clock_def emit_def)

lemma calls_Timer_end: "calls (snd (Timer_end rt name w)) = calls w"
  by (simp add: calls_def Timer_end_def read_clock_def emit_def split: option.split)

lemma calls_fold_emit:
  "calls (fold (\<lambda>(k, x). emit (g k x)) xs w) = calls w @ filter is_call (map (\<lambda>(k, x). g k x) xs)"
  by (induction xs arbitrary: w) (simp_all add: calls_emit split: prod.split)

lemma enumerate_map_nth: "map f (enumerate 0 xs) = map (\<lambda>k. f (k, xs ! k)) [0..<length xs]"
  by (rule nth_equalityI) (simp_all add: nth_enumerate_eq)

lemma calls_render_branch:
  "calls (snd (render_branch rt lb cfg i sc w)) =
     calls w @ Render sc 30 ''pil'' #
       (case model_render lb sc 30 ''pil'' of
          [] \<Rightarrow> []
        | frames # _ \<Rightarrow>
            map (\<lambda>ri. SaveImage (frames ! ri)
                  (os_path_join (output_dir cfg) [str_nat i, ''render_'' @ fmt_03d ri @ ''.png'']))
              [0..<length frames]
            @ [SaveVideo frames (os_path_join (output_dir cfg) [str_nat i, ''render.mp4'']) 30])"
proof (cases "model_render lb sc 30 ''pil''")
  case Nil
  then show ?thesis
    by (simp add: render_branch_def calls_emit calls_Timer_start)
next
  case (Cons frames rest)
  show ?thesis
    by (simp add: render_branch_def Cons calls_emit calls_Timer_start calls_Timer_end
        calls_fold_emit enumerate_map_nth filter_map comp_def del: fold_simps)
qed

lemma fst_render_branch:
  "fst (render_branch rt lb cfg i sc w) =
     (if model_render lb sc 30 ''pil'' = [] then Some IndexError else None)"
  by (simp add: render_branch_def Let_def split: list.split)

lemma calls_export_mesh:
  "calls (snd (export_mesh rt lb cfg i sc w)) =
     calls w @ ExtractMesh sc False #
       (case model_extract_mesh lb sc False of
          [] \<Rightarrow> []
        | mesh # _ \<Rightarrow> [ExportMesh mesh (os_path_join (output_dir cfg) [str_nat i, ''mesh.'' @ model_save_format cfg])])"
  by (simp add: export_mesh_def Let_def calls_emit calls_Timer_start calls_Timer_end split: list.split)

lemma fst_export_mesh:
  "fst (export_mesh rt lb cfg i sc w) =
     (if model_extract_mesh lb sc False = [] then Some IndexError else None)"
  by (simp add: export_mesh_def Let_def split: list.split)

lemma calls_run_image:
  assumes "sc = model_call lb [im] (device cfg)"
  shows "calls (snd (run_image rt lb cfg n (i, im) w)) =
     calls w @ RunModel [im] (device cfg) #
       (if render cfg then
          Render sc 30 ''pil'' #
          (case model_render lb sc 30 ''pil'' of
             [] \<Rightarrow> []
           | frames # _ \<Rightarrow>
               map (\<lambda>ri. SaveImage (frames ! ri)
                     (os_path_join (output_dir cfg) [str_nat i, ''render_'' @ fmt_03d ri @ ''.png'']))
                 [0..<length frames]
               @ [SaveVideo frames (os_path_join (output_dir cfg) [str_nat i, ''render.mp4'']) 30])
        else []) @
       (if render cfg \<and> model_render lb sc 30 ''pil'' = [] then []
        else ExtractMesh sc False #
          (case model_extract_mesh lb sc False of
             [] \<Rightarrow> []
           | mesh # _ \<Rightarrow> [ExportMesh mesh (os_path_join (output_dir cfg) [str_nat i, ''mesh.'' @ model_save_format cfg])]))"
proof (cases "render cfg")
  case False
  then show ?thesis
    by (simp add: run_image_def Let_def assms calls_export_mesh calls_emit calls_Timer_start calls_Timer_end)
next
  case True
  show ?thesis
  proof (cases "model_render lb sc 30 ''pil'' = []")
    case True
    with \<open>render cfg\<close> show ?thesis
      by (simp add: run_image_def Let_def assms [symmetric] fst_render_branch calls_render_branch
          calls_emit calls_Timer_start calls_Timer_end)
  next
    case False
    with \<open>render cfg\<close> show ?thesis
      by (simp add: run_image_def Let_def assms [symmetric] fst_render_branch calls_render_branch
          calls_export_mesh calls_emit calls_Timer_start calls_Timer_end)
  qed
qed

lemma fst_run_image:
  assumes "sc = model_call lb [im] (device cfg)"
  shows "fst (run_image rt lb cfg n (i, im) w) =
     (if render cfg \<and> model_render lb sc 30 ''pil'' = [] then Some IndexError
      else if model_extract_mesh lb sc False = [] then Some IndexError else None)"
  by (simp add: run_image_def Let_def assms fst_render_branch fst_export_mesh)

lemma calls_preprocess_cell:
  "calls (snd (preprocess_cell rt lb cfg img w)) =
     calls w @ [NewSession, RemoveBackground img,
       ResizeForeground (remove_background lb img) (foreground_ratio cfg),
       MakeDirs (os_path_join (output_dir cfg) [str_nat 0]),
       SaveImage (hd (fst (preprocess_cell rt lb cfg img w)))
         (os_path_join (os_path_join (output_dir cfg) [str_nat 0]) [''input.png''])]"
  by (simp add: preprocess_cell_def Let_def calls_emit calls_Timer_start calls_Timer_end)

lemma fst_preprocess_cell:
  "fst (preprocess_cell rt lb cfg img w) =
     [let image = resize_foreground lb (remove_background lb img) (foreground_ratio cfg)
      in if mode image = ''RGBA'' then alpha_composite rt image else image]"
  by (simp add: preprocess_cell_def Let_def)

lemma calls_inference_cell_single:
  "calls (snd (inference_cell rt lb cfg [im] w)) = calls (snd (run_image rt lb cfg 1 (0, im) w))"
  by (simp add: inference_cell_def calls_emit split: prod.split option.split)

lemma str_nat_0: "str_nat 0 = ''0''"
  by (simp add: str_nat.simps digit_char_def)

lemma calls_pipeline_run:
  "calls (snd (pipeline_run rt lb cfg img w)) =
     calls (snd (run_image rt lb cfg 1 (0, hd (fst (preprocess_cell rt lb cfg img w)))
       (snd (preprocess_cell rt lb cfg img w))))"
proof -
  obtain im where im: "fst (preprocess_cell rt lb cfg img w) = [im]"
    by (simp add: fst_preprocess_cell)
  then show ?thesis
    by (simp add: pipeline_run_def split_beta calls_inference_cell_single)
qed

lemma input_png_path:
  "os_path_join (os_path_join od [str_nat 0]) [''input.png''] = os_path_join od [''0''] @ ''/input.png''"
  by (simp add: os_path_join.simps str_nat_0)

lemma dir0_path:
  "take 1 name \<noteq> ''/'' \<Longrightarrow> os_path_join od [str_nat 0, name] = os_path_join od [''0''] @ ''/'' @ name"
  by (simp add: os_path_join.simps str_nat_0)

lemma fmt_03d_width: "n < 1000 \<Longrightarrow> length (fmt_03d n) = 3"
  by (simp add: fmt_03d_def str_nat.simps [of n] str_nat.simps [of "n div 10"]
      str_nat.simps [of "n div 10 div 10"])

section \<open>Facts of the concrete run\<close>

lemma demo_config:
  "render notebook_config" "no_remove_bg notebook_config" "device notebook_config = ''cuda:0''"
  "output_dir notebook_config = ''output/''" "model_save_format notebook_config = ''obj''"
  "foreground_ratio notebook_config = 85 / 100"
  by (simp_all add: notebook_config_def)

lemma demo_libs:
  "remove_background lb_demo img_demo = cutout_demo" "resize_foreground lb_demo im r = im"
  "model_call lb_demo ims dev = length ims"
  "model_render lb_demo sc n t = [map frame_demo [0..<n]]"
  "model_extract_mesh lb_demo sc c = [''mesh'' @ str_nat sc]"
  by (simp_all add: lb_demo_def img_demo_def cutout_demo_def)

lemma demo_world: "calls w_demo = []" "trace w_demo = []"
  by (simp_all add: w_demo_def world_init_def calls_def)

lemma demo_path:
  "take 1 name \<noteq> ''/'' \<Longrightarrow> os_path_join ''output/'' [str_nat 0, name] = ''output/0/'' @ name"
  by (simp add: os_path_join.simps str_nat_0)

lemma demo_image: "wf_image cutout_demo" "mode cutout_demo = ''RGBA''" "size_wh img_demo = (2, 1)"
  "pixels cutout_demo = [[255, 0, 0, 255], [0, 0, 255, 0]]" "wf_image img_demo"
  by (simp_all add: img_demo_def cutout_demo_def wf_image_def bands_def)

lemma fmt_03d_demo: "fmt_03d 0 = ''000''" "fmt_03d (Suc 0) = ''001''" "fmt_03d 29 = ''029''"
  by (simp_all add: fmt_03d_def str_nat.simps digit_char_def numeral_2_eq_2)

lemma str_nat_1: "str_nat (Suc 0) = ''1''"
  by (simp add: str_nat.simps digit_char_def)

section \<open>Alpha compositing\<close>

lemma length4E:
  assumes "length p = 4"
  obtains r g b a where "p = [r, g, b, a]"
proof -
  from assms obtain r p1 where 1: "p = r # p1" "length p1 = 3"
    by (cases p) simp_all
  then obtain g p2 where 2: "p1 = g # p2" "length p2 = 2"
    by (cases p1) simp_all
  then obtain b p3 where 3: "p2 = b # p3" "length p3 = 1"
    by (cases p2) simp_all
  then obtain a where 4: "p3 = [a]"
    by (cases p3) simp_all
  from 1 2 3 4 that show thesis by simp
qed

lemma composite_pixel_length: "length p = 4 \<Longrightarrow> length (composite_pixel rt p) = 3"
  by (erule length4E) (simp add: composite_pixel_def)

lemma composite_pixel_nth:
  assumes "length p = 4" and "c < 3"
  shows "composite_pixel rt p ! c =
     astype_uint8 (rnd32 rt
       (rnd32 rt (rnd32 rt (rnd32 rt (real (p ! c) / 255) * rnd32 rt (real (p ! 3) / 255))
                  + rnd32 rt (rnd32 rt (1 - rnd32 rt (real (p ! 3) / 255)) * (1 / 2))) * 255))"
proof -
  from assms(1) obtain r g b a where p: "p = [r, g, b, a]"
    by (rule length4E)
  from assms(2) consider "c = 0" | "c = 1" | "c = 2"
    by linarith
  then show ?thesis
    by cases (simp_all add: p composite_pixel_def)
qed

lemma astype_uint8_lt: "astype_uint8 x < 256"
  by (simp add: astype_uint8_def nat_less_iff)

lemma composite_pixel_range: "list_all (\<lambda>v. v < 256) (composite_pixel rt p)"
  by (auto simp add: composite_pixel_def Let_def list_all_iff astype_uint8_lt split: list.split)

lemma wf_image_pixel:
  "wf_image im \<Longrightarrow> k < length (pixels im) \<Longrightarrow> length (pixels im ! k) = bands (mode im)"
  by (simp add: wf_image_def list_all_length)

lemma bands_RGBA: "bands ''RGBA'' = 4"
  by (simp add: bands_def)

lemma bands_RGB: "bands ''RGB'' = 3"
  by (simp add: bands_def)

lemma wf_alpha_composite:
  assumes "wf_image im" and "mode im = ''RGBA''"
  shows "wf_image (alpha_composite rt im)"
  using assms
  by (simp add: wf_image_def alpha_composite_def bands_RGB bands_RGBA list_all_iff
      composite_pixel_length composite_pixel_range [unfolded list_all_iff])

text \<open>
  C3. When the image that foreground resizing returns is an RGBA image, the preprocessing
  cell hands exactly one image to inference, of mode RGB: it has the size and the number
  of pixels of the RGBA image, every pixel has three bands and no alpha band, and band
  \<open>c\<close> of pixel \<open>k\<close> is \<open>rgb * alpha + (1 - alpha) * 0.5\<close> on the values normalised by 255,
  each float32 operation rounded, scaled back by 255 and truncated to uint8.
\<close>

theorem preprocess_composites_alpha:
  assumes "im0 = resize_foreground lb (remove_background lb img) (foreground_ratio cfg)"
    and "wf_image im0" and "mode im0 = ''RGBA''"
  shows "\<exists>out. fst (preprocess_cell rt lb cfg img w) = [out] \<and>
      mode out = ''RGB'' \<and> bands (mode out) = 3 \<and> wf_image out \<and>
      size_wh out = size_wh im0 \<and> length (pixels out) = length (pixels im0) \<and>
      (\<forall>k<length (pixels im0). length (pixels out ! k) = 3 \<and>
         (\<forall>c<3. pixels out ! k ! c =
            astype_uint8 (rnd32 rt
              (rnd32 rt (rnd32 rt (rnd32 rt (real (pixels im0 ! k ! c) / 255)
                                    * rnd32 rt (real (pixels im0 ! k ! 3) / 255))
                         + rnd32 rt (rnd32 rt (1 - rnd32 rt (real (pixels im0 ! k ! 3) / 255)) * (1 / 2)))
               * 255))))"
proof -
  let ?out = "alpha_composite rt im0"
  have out: "fst (preprocess_cell rt lb cfg img w) = [?out]"
    using assms(1,3) by (simp add: fst_preprocess_cell)
  have m: "mode ?out = ''RGB''" "size_wh ?out = size_wh im0"
    "length (pixels ?out) = length (pixels im0)"
    by (simp_all add: alpha_composite_def)
  have wf: "wf_image ?out"
    using assms(2,3) by (rule wf_alpha_composite)
  have px: "length (pixels ?out ! k) = 3 \<and>
         (\<forall>c<3. pixels ?out ! k ! c =
            astype_uint8 (rnd32 rt
              (rnd32 rt (rnd32 rt (rnd32 rt (real (pixels im0 ! k ! c) / 255)
                                    * rnd32 rt (real (pixels im0 ! k ! 3) / 255))
                         + rnd32 rt (rnd32 rt (1 - rnd32 rt (real (pixels im0 ! k ! 3) / 255)) * (1 / 2)))
               * 255)))" if k: "k < length (pixels im0)" for k
  proof -
    have l: "length (pixels im0 ! k) = 4"
      using wf_image_pixel [OF assms(2) k] assms(3) by (simp add: bands_RGBA)
    show ?thesis
      using k by (simp add: alpha_composite_def composite_pixel_length [OF l] composite_pixel_nth [OF l])
  qed
  from out m wf px show ?thesis
    by (simp add: bands_RGB)
qed

theorem preprocess_composites_alpha_witness:
  "wf_image cutout_demo \<and> mode cutout_demo = ''RGBA'' \<and>
   (\<exists>out. fst (preprocess_cell rt_demo lb_demo notebook_config img_demo w_demo) = [out] \<and>
      mode out = ''RGB'' \<and> length (pixels out) = 2 \<and> length (pixels out ! 1) = 3 \<and>
      pixels out ! 0 ! 0 = 255 \<and> pixels out ! 0 ! 1 = 0 \<and> pixels out ! 1 ! 2 = 127)"
proof -
  have e: "cutout_demo = resize_foreground lb_demo (remove_background lb_demo img_demo)
             (foreground_ratio notebook_config)"
    by (simp add: demo_libs)
  from preprocess_composites_alpha [OF e demo_image(1) demo_image(2), of rt_demo w_demo]
  obtain out where
    out: "fst (preprocess_cell rt_demo lb_demo notebook_config img_demo w_demo) = [out]"
    and m: "mode out = ''RGB''" and l: "length (pixels out) = length (pixels cutout_demo)"
    and px: "\<forall>k<length (pixels cutout_demo). length (pixels out ! k) = 3 \<and>
         (\<forall>c<3. pixels out ! k ! c =
            astype_uint8 (rnd32 rt_demo
              (rnd32 rt_demo (rnd32 rt_demo (rnd32 rt_demo (real (pixels cutout_demo ! k ! c) / 255)
                                    * rnd32 rt_demo (real (pixels cutout_demo ! k ! 3) / 255))
                         + rnd32 rt_demo (rnd32 rt_demo (1 - rnd32 rt_demo (real (pixels cutout_demo ! k ! 3) / 255)) * (1 / 2)))
               * 255)))"
    by blast
  have r: "rnd32 rt_demo = (\<lambda>x. x)"
    by (simp add: rt_demo_def)
  from px have p0: "pixels out ! 0 ! 0 = 255" "pixels out ! 0 ! 1 = 0"
    by (simp_all add: demo_image r astype_uint8_def)
  from px have p1: "length (pixels out ! 1) = 3" "pixels out ! 1 ! 2 = 127"
    by (simp_all add: demo_image r astype_uint8_def)
  from out m l p0 p1 show ?thesis
    by (simp add: demo_image)
qed

section \<open>The loop body\<close>

text \<open>
  C5. With \<open>render\<close> set, and the model returning the frames of the scene as the first
  element of its result, an iteration asks \<open>model.render\<close> for 30 views, saves frame \<open>ri\<close>
  as \<open>render_{ri:03d}.png\<close> in the image's directory in increasing order of \<open>ri\<close>, then
  passes the same list of frames to \<open>save_video\<close> once, for \<open>render.mp4\<close> at 30 frames per
  second; the export follows.
\<close>

theorem render_branch_30_views:
  assumes "render cfg"
    and "model_render lb (model_call lb [im] (device cfg)) 30 ''pil'' = frames # rest"
  shows "calls (snd (run_image rt lb cfg n (i, im) w)) =
     calls w @
       [RunModel [im] (device cfg), Render (model_call lb [im] (device cfg)) 30 ''pil''] @
       map (\<lambda>ri. SaveImage (frames ! ri)
             (os_path_join (output_dir cfg) [str_nat i, ''render_'' @ fmt_03d ri @ ''.png'']))
         [0..<length frames] @
       [SaveVideo frames (os_path_join (output_dir cfg) [str_nat i, ''render.mp4'']) 30] @
       ExtractMesh (model_call lb [im] (device cfg)) False #
         (case model_extract_mesh lb (model_call lb [im] (device cfg)) False of
            [] \<Rightarrow> []
          | mesh # _ \<Rightarrow> [ExportMesh mesh
              (os_path_join (output_dir cfg) [str_nat i, ''mesh.'' @ model_save_format cfg])])"
  using assms by (simp add: calls_run_image [OF refl])

theorem render_branch_30_views_witness:
  "render notebook_config \<and>
   take 4 (calls (snd (run_image rt_demo lb_demo notebook_config 1 (0, img_demo) w_demo))) =
     [RunModel [img_demo] ''cuda:0'', Render 1 30 ''pil'',
      SaveImage (frame_demo 0) ''output/0/render_000.png'',
      SaveImage (frame_demo 1) ''output/0/render_001.png''] \<and>
   length (calls (snd (run_image rt_demo lb_demo notebook_config 1 (0, img_demo) w_demo))) = 35 \<and>
   calls (snd (run_image rt_demo lb_demo notebook_config 1 (0, img_demo) w_demo)) ! 31 =
     SaveImage (frame_demo 29) ''output/0/render_029.png'' \<and>
   calls (snd (run_image rt_demo lb_demo notebook_config 1 (0, img_demo) w_demo)) ! 32 =
     SaveVideo (map frame_demo [0..<30]) ''output/0/render.mp4'' 30"
proof -
  have h: "model_render lb_demo (model_call lb_demo [img_demo] (device notebook_config)) 30 ''pil''
             = map frame_demo [0..<30] # []"
    by (simp only: demo_libs)
  note t = render_branch_30_views [OF demo_config(1) h, of rt_demo 1 0 w_demo]
  have l: "length (map frame_demo [0..<30]) = 30"
    by simp
  have u: "[0..<30] = [0,1,2,3,4,5,6,7,8,9,10,11,12,13,14,15,16,17,18,19,20,21,22,23,24,25,26,27,28,29::nat]"
    by code_simp
  show ?thesis
    unfolding t l
    by (simp add: demo_config demo_libs demo_world demo_path fmt_03d_demo u)
qed

text \<open>
  C6. When the calls of the model do not raise (the mesh list is not empty and, with
  \<open>render\<close> set, the render result is not empty), iteration \<open>i\<close> completes and, whatever
  \<open>render\<close> is, calls \<open>extract_mesh\<close> once on the scene encoding and exports its first mesh
  to \<open>mesh.{model_save_format}\<close> in the directory \<open>str(i)\<close> of \<open>output_dir\<close>; the render calls
  are made when \<open>render\<close> is set and not otherwise.
\<close>

theorem export_regardless_of_render:
  assumes "model_extract_mesh lb (model_call lb [im] (device cfg)) False = mesh # ms"
    and "render cfg \<longrightarrow> model_render lb (model_call lb [im] (device cfg)) 30 ''pil'' = frames # rest"
  shows "fst (run_image rt lb cfg n (i, im) w) = None \<and>
     calls (snd (run_image rt lb cfg n (i, im) w)) =
       calls w @ RunModel [im] (device cfg) #
         (if render cfg then
            Render (model_call lb [im] (device cfg)) 30 ''pil'' #
            map (\<lambda>ri. SaveImage (frames ! ri)
                  (os_path_join (output_dir cfg) [str_nat i, ''render_'' @ fmt_03d ri @ ''.png'']))
              [0..<length frames] @
            [SaveVideo frames (os_path_join (output_dir cfg) [str_nat i, ''render.mp4'']) 30]
          else []) @
         [ExtractMesh (model_call lb [im] (device cfg)) False,
          ExportMesh mesh (os_path_join (output_dir cfg) [str_nat i, ''mesh.'' @ model_save_format cfg])]"
  using assms by (simp add: calls_run_image [OF refl] fst_run_image [OF refl])

theorem export_regardless_of_render_witness:
  "fst (run_image rt_demo lb_demo (notebook_config\<lparr>render := False\<rparr>) 1 (0, img_demo) w_demo) = None \<and>
   calls (snd (run_image rt_demo lb_demo (notebook_config\<lparr>render := False\<rparr>) 1 (0, img_demo) w_demo)) =
     [RunModel [img_demo] ''cuda:0'', ExtractMesh 1 False, ExportMesh ''mesh1'' ''output/0/mesh.obj''] \<and>
   fst (run_image rt_demo lb_demo notebook_config 1 (0, img_demo) w_demo) = None \<and>
   drop 33 (calls (snd (run_image rt_demo lb_demo notebook_config 1 (0, img_demo) w_demo))) =
     [ExtractMesh 1 False, ExportMesh ''mesh1'' ''output/0/mesh.obj'']"
proof -
  let ?off = "notebook_config\<lparr>render := False\<rparr>"
  have m0: "model_extract_mesh lb_demo (model_call lb_demo [img_demo] (device ?off)) False = ''mesh1'' # []"
    by (simp add: demo_libs str_nat_1)
  have r0: "render ?off \<longrightarrow>
      model_render lb_demo (model_call lb_demo [img_demo] (device ?off)) 30 ''pil'' = [] # []"
    by simp
  have m1: "model_extract_mesh lb_demo (model_call lb_demo [img_demo] (device notebook_config)) False = ''mesh1'' # []"
    by (simp add: demo_libs str_nat_1)
  have r1: "render notebook_config \<longrightarrow>
      model_render lb_demo (model_call lb_demo [img_demo] (device notebook_config)) 30 ''pil''
        = map frame_demo [0..<30] # []"
    by (simp add: demo_libs)
  note off = export_regardless_of_render [OF m0 r0, of rt_demo 1 0 w_demo]
  note on = export_regardless_of_render [OF m1 r1, of rt_demo 1 0 w_demo]
  have p: "os_path_join ''output/'' [str_nat 0, ''mesh.obj''] = ''output/0/mesh.obj''"
    by (simp add: demo_path)
  have off': "calls (snd (run_image rt_demo lb_demo ?off 1 (0, img_demo) w_demo)) =
     [RunModel [img_demo] ''cuda:0'', ExtractMesh 1 False, ExportMesh ''mesh1'' ''output/0/mesh.obj'']"
    unfolding off [THEN conjunct2]
    by (simp add: demo_config demo_libs demo_world demo_path)
  have on': "drop 33 (calls (snd (run_image rt_demo lb_demo notebook_config 1 (0, img_demo) w_demo))) =
     [ExtractMesh 1 False, ExportMesh ''mesh1'' ''output/0/mesh.obj'']"
    unfolding on [THEN conjunct2]
    by (simp add: demo_config demo_libs demo_world demo_path)
  from off [THEN conjunct1] on [THEN conjunct1] off' on' show ?thesis
    by simp
qed

section \<open>A pipeline run\<close>

text \<open>
  C9. The preprocessing cell hands a list of exactly one image to the loop and saves that
  image as \<open>input.png\<close> in the directory \<open>0\<close> of \<open>output_dir\<close>; every file that the run
  writes, including those of the loop (whose only index is 0), has a path made of that
  directory, a slash and a name.
\<close>

theorem pipeline_single_image_dir0:
  "\<exists>im new. fst (preprocess_cell rt lb cfg img w) = [im] \<and>
      pipeline_run rt lb cfg img w = inference_cell rt lb cfg [im] (snd (preprocess_cell rt lb cfg img w)) \<and>
      calls (snd (pipeline_run rt lb cfg img w)) = calls w @ new \<and>
      SaveImage im (os_path_join (output_dir cfg) [''0''] @ ''/input.png'') \<in> set new \<and>
      (\<forall>e\<in>set new. \<forall>p. written_path e = Some p \<longrightarrow>
         (\<exists>name. p = os_path_join (output_dir cfg) [''0''] @ ''/'' @ name))"
proof -
  obtain im where im: "fst (preprocess_cell rt lb cfg img w) = [im]"
    by (simp add: fst_preprocess_cell)
  let ?w1 = "snd (preprocess_cell rt lb cfg img w)"
  let ?sc = "model_call lb [im] (device cfg)"
  let ?d0 = "os_path_join (output_dir cfg) [''0'']"
  let ?pre = "[NewSession, RemoveBackground img,
       ResizeForeground (remove_background lb img) (foreground_ratio cfg),
       MakeDirs (os_path_join (output_dir cfg) [str_nat 0]),
       SaveImage im (?d0 @ ''/input.png'')]"
  let ?ren = "(if render cfg then
          Render ?sc 30 ''pil'' #
          (case model_render lb ?sc 30 ''pil'' of
             [] \<Rightarrow> []
           | frames # _ \<Rightarrow>
               map (\<lambda>ri. SaveImage (frames ! ri) (?d0 @ ''/'' @ ''render_'' @ fmt_03d ri @ ''.png''))
                 [0..<length frames]
               @ [SaveVideo frames (?d0 @ ''/'' @ ''render.mp4'') 30])
        else [])"
  let ?exp = "(if render cfg \<and> model_render lb ?sc 30 ''pil'' = [] then []
        else ExtractMesh ?sc False #
          (case model_extract_mesh lb ?sc False of
             [] \<Rightarrow> []
           | mesh # _ \<Rightarrow> [ExportMesh mesh (?d0 @ ''/'' @ ''mesh.'' @ model_save_format cfg)]))"
  let ?new = "?pre @ RunModel [im] (device cfg) # ?ren @ ?exp"
  have run: "pipeline_run rt lb cfg img w = inference_cell rt lb cfg [im] ?w1"
    using im by (simp add: pipeline_run_def split_beta)
  have pre: "calls ?w1 = calls w @ ?pre"
    by (simp add: calls_preprocess_cell im input_png_path)
  have "calls (snd (pipeline_run rt lb cfg img w)) = calls (snd (run_image rt lb cfg 1 (0, im) ?w1))"
    by (simp add: calls_pipeline_run im)
  also have "\<dots> = calls ?w1 @ RunModel [im] (device cfg) # ?ren @ ?exp"
    by (simp add: calls_run_image [OF refl] dir0_path cong: list.case_cong)
  finally have new: "calls (snd (pipeline_run rt lb cfg img w)) = calls w @ ?new"
    by (simp add: pre)
  have mem: "SaveImage im (?d0 @ ''/input.png'') \<in> set ?new"
    by simp
  have under: "\<forall>e\<in>set ?new. \<forall>p. written_path e = Some p \<longrightarrow> (\<exists>name. p = ?d0 @ ''/'' @ name)"
    by (auto split: list.splits if_splits)
  from im run new mem under show ?thesis
    by blast
qed

theorem pipeline_single_image_dir0_witness:
  "\<exists>im new. fst (preprocess_cell rt_demo lb_demo notebook_config img_demo w_demo) = [im] \<and>
      calls (snd (pipeline_run rt_demo lb_demo notebook_config img_demo w_demo)) = new \<and>
      SaveImage im ''output/0/input.png'' \<in> set new \<and>
      (\<exists>name. written_path (SaveImage im ''output/0/input.png'') = Some (''output/0/'' @ name))"
proof -
  have d: "os_path_join (output_dir notebook_config) [''0''] = ''output/0''"
    by (simp add: demo_config os_path_join.simps)
  from pipeline_single_image_dir0 [of rt_demo lb_demo notebook_config img_demo w_demo]
  obtain im new where
    im: "fst (preprocess_cell rt_demo lb_demo notebook_config img_demo w_demo) = [im]"
    and new: "calls (snd (pipeline_run rt_demo lb_demo notebook_config img_demo w_demo)) = calls w_demo @ new"
    and mem: "SaveImage im (''output/0'' @ ''/input.png'') \<in> set new"
    and under: "\<forall>e\<in>set new. \<forall>p. written_path e = Some p \<longrightarrow> (\<exists>name. p = ''output/0'' @ ''/'' @ name)"
    unfolding d by blast
  from under mem have "\<exists>name. ''output/0'' @ ''/input.png'' = ''output/0'' @ ''/'' @ name"
    by (metis written_path.simps(1))
  with im new mem show ?thesis
    by (simp add: demo_world)
qed

section \<open>What the cells do with \<open>no_remove_bg\<close> and with the resized upload\<close>

lemma preprocess_cell_ignores_no_remove_bg:
  "preprocess_cell rt lb (cfg\<lparr>no_remove_bg := b\<rparr>) img w = preprocess_cell rt lb cfg img w"
  by (simp add: preprocess_cell_def)

text \<open>
  C1. With the notebook's own configuration, where \<open>no_remove_bg\<close> is \<open>True\<close>, the
  preprocessing cell still opens a rembg session and calls \<open>remove_background\<close> on the
  uploaded image, and \<open>resize_foreground\<close> receives the result of that call, not the
  upload: the flag does not bypass background removal.
\<close>

theorem preprocess_always_removes_background:
  "no_remove_bg notebook_config \<and>
   calls (snd (preprocess_cell rt_demo lb_demo notebook_config img_demo w_demo)) =
     [NewSession, RemoveBackground img_demo, ResizeForeground cutout_demo (85 / 100),
      MakeDirs ''output/0'', SaveImage (alpha_composite rt_demo cutout_demo) ''output/0/input.png'']"
  by (simp add: calls_preprocess_cell fst_preprocess_cell demo_config demo_libs demo_world demo_image
      os_path_join.simps str_nat_0)

lemma calls_notebook_run:
  "calls (snd (notebook_run rt lb cfg ((fname, img) # rest) w)) =
     calls (snd (pipeline_run rt lb cfg img
       (load_model_cell rt cfg (config_cell cfg
         (emit (SaveImage (Image_resize lb img (512, 512)) ''examples/product.png'') w)))))"
  by (simp add: notebook_run_def upload_cell_def)

lemma calls_load_model_cell:
  "calls (load_model_cell rt cfg w) =
     calls w @ [FromPretrained (pretrained_model_name_or_path cfg) ''config.yaml'' ''model.ckpt'',
       SetChunkSize (chunk_size cfg), ModelTo (device cfg)]"
  by (simp add: load_model_cell_def Let_def calls_emit calls_Timer_start calls_Timer_end)

text \<open>
  C7. For an upload of size 2 x 1, the notebook saves the image resized to 512 x 512 as
  \<open>examples/product.png\<close>, creates the output directory, loads the model, opens the rembg
  session, and then calls \<open>remove_background\<close> on the original image of size 2 x 1. The
  preprocessor receives the upload as it was, not the resized copy.
\<close>

theorem preprocessor_receives_original:
  "take 7 (calls (snd (notebook_run rt_demo lb_demo notebook_config [(''photo.png'', img_demo)] w_demo))) =
     [SaveImage (Image_resize lb_demo img_demo (512, 512)) ''examples/product.png'',
      MakeDirs ''output/'',
      FromPretrained ''stabilityai/TripoSR'' ''config.yaml'' ''model.ckpt'',
      SetChunkSize 8192, ModelTo ''cuda:0'',
      NewSession, RemoveBackground img_demo] \<and>
   size_wh (Image_resize lb_demo img_demo (512, 512)) = (512, 512) \<and>
   size_wh img_demo = (2, 1)"
  by (simp add: calls_notebook_run calls_pipeline_run calls_run_image [OF refl] calls_preprocess_cell
      calls_load_model_cell config_cell_def calls_emit demo_world demo_config demo_image
      Image_resize_def notebook_config_def)

end
